theory Spec2Isabelle
  imports Complex_Main
begin

section \<open>The HDBSCAN command-line adapter (scripts/hdbscan-python.py)\<close>

text \<open>
  The script is one procedure, \<open>main\<close>: it parses its options, imports two libraries,
  reads one JSON document from standard input, normalises the embedding rows when the
  metric is \<open>euclidean\<close>, calls the clustering library and prints one JSON document.

  The model starts where \<open>parser.parse_args()\<close> has returned its namespace (line 24):
  the namespace is the record \<open>args\<close>. An invocation in which \<open>argparse\<close> itself ends
  the process (a usage error, \<open>--help\<close>) never reaches line 26 and has no run here.
  Everything the procedure does to the outside world is an \<open>event\<close> of its run, in the
  order in which the code performs it: a line written to standard error, a document
  written to standard output, the call of the clustering routine with its arguments, and
  the trace the interpreter prints when an exception is not caught. What the outside
  world answers is the record \<open>env\<close>: how the imports end, what \<open>json.load\<close> returns,
  the float32 arithmetic of numpy, and the clustering routine itself.

  Numbers: Python integers are \<open>int\<close>, and a number of the input document is the
  \<open>real\<close> it denotes. An entry of the embedding matrix is a \<open>float32\<close>: a finite value,
  an infinity or NaN. The three numpy operations whose result depends on rounding and
  overflow (the conversion to float32, the norm of a row, the quotient) are not defined
  here: they are fields of \<open>env\<close>, and every theorem holds whatever they compute.
\<close>

subsection \<open>Data\<close>

text \<open>An identifier of the input document: a string or a number.\<close>

datatype ident = IdStr string | IdInt int | IdFloat real

text \<open>
  The value \<open>json.load\<close> returns for a document of the input schema: the values under
  the keys \<open>ids\<close> and \<open>embeddings\<close>. Neither the equality of the two lengths nor the
  uniformity of the rows is part of the type: the script does not check them. A JSON text
  of another shape (a key missing, a value that is not a list of identifiers or of lists
  of finite numbers) is not a value of this type.
\<close>

record document =
  ids :: "ident list"
  embeddings :: "real list list"

text \<open>The namespace of \<open>argparse\<close> (lines 17 to 24); \<open>min_samples\<close> defaults to \<open>None\<close>.\<close>

record args =
  min_cluster_size :: int
  min_samples :: "int option"
  metric :: string
  core_dist_n_jobs :: int

text \<open>The keyword arguments of the constructor \<open>hdbscan.HDBSCAN\<close> (lines 55 to 60).\<close>

record hdbscan_params =
  p_min_cluster_size :: int
  p_min_samples :: int
  p_metric :: string
  p_core_dist_n_jobs :: int

text \<open>
  A float32 value. \<open>Finite x\<close> is the finite value \<open>x\<close>; the two zeros of the format
  are both \<open>Finite 0\<close>.
\<close>

datatype float32 = Finite real | PosInf | NegInf | NaN

text \<open>
  The arrays \<open>np.array\<close> builds from a list of lists of numbers: the empty list gives
  a one-dimensional array of shape \<open>(0,)\<close>, a non-empty list of rows of one length a
  two-dimensional array.
\<close>

datatype ndarray = Arr1 "float32 list" | Arr2 "float32 list list"

text \<open>
  The exceptions of a run. \<open>ImportError\<close> carries its message; \<open>LibraryError\<close> stands
  for whatever else a library raises by itself.
\<close>

datatype exn =
    ImportError string
  | JSONDecodeError
  | ValueError
  | AxisError
  | LibraryError string

text \<open>The dictionary \<open>result\<close> of lines 65 to 70; the key \<open>ids\<close> is the field \<open>res_ids\<close>.\<close>

record result =
  labels :: "int list"
  res_ids :: "ident list"
  n_clusters :: int
  n_noise :: int

text \<open>The two documents the script passes to \<open>json.dumps\<close> and prints.\<close>

datatype json_out = ErrorDoc string | ResultDoc result

text \<open>
  What a run does, in order. \<open>FitPredict p m\<close> is the construction of the clusterer with
  the keyword arguments \<open>p\<close> followed by the call \<open>fit_predict(m)\<close> (lines 55 to 62).
\<close>

datatype event =
    Stderr string
  | Stdout json_out
  | FitPredict hdbscan_params ndarray
  | Traceback exn

record run =
  events :: "event list"
  exit_code :: int

text \<open>
  The answers of the outside world.
  \<^item> \<open>import_error\<close> is \<open>None\<close> when both imports of lines 30 and 31 succeed, and the
    exception otherwise: an \<open>ImportError\<close>, or any other exception raised while a
    module is loaded.
  \<^item> \<open>stdin\<close> is \<open>None\<close> when \<open>json.load(sys.stdin)\<close> raises because the text is not
    JSON, and the parsed document otherwise.
  \<^item> \<open>np_float32\<close> is numpy's conversion of a Python number to float32, \<open>linalg_norm\<close>
    the float32 norm \<open>np.linalg.norm\<close> computes for one row, \<open>true_divide\<close> the float32
    quotient of two entries.
  \<^item> \<open>fit_predict\<close> is the clustering routine, which returns a label array or raises.
\<close>

record env =
  import_error :: "exn option"
  stdin :: "document option"
  np_float32 :: "real \<Rightarrow> float32"
  linalg_norm :: "float32 list \<Rightarrow> float32"
  true_divide :: "float32 \<Rightarrow> float32 \<Rightarrow> float32"
  fit_predict :: "hdbscan_params \<Rightarrow> ndarray \<Rightarrow> exn + int list"

subsection \<open>Python and numpy primitives\<close>

text \<open>\<open>str\<close> of an integer, as an f-string renders it.\<close>

definition digit_char :: "nat \<Rightarrow> char" where
  "digit_char n = ''0123456789'' ! n"

fun str_nat :: "nat \<Rightarrow> string" where
  "str_nat n =
     (if n < 10 then [digit_char n] else str_nat (n div 10) @ [digit_char (n mod 10)])"

declare str_nat.simps [simp del]

definition str_int :: "int \<Rightarrow> string" where
  "str_int i = (if i < 0 then ''-'' @ str_nat (nat (- i)) else str_nat (nat i))"

text \<open>
  \<open>a or b\<close> on an optional integer: \<open>None\<close> and \<open>0\<close> are false, and a false left
  operand gives the right one.
\<close>

definition truthy :: "int option \<Rightarrow> bool" where
  "truthy v = (case v of None \<Rightarrow> False | Some n \<Rightarrow> n \<noteq> 0)"

definition py_or :: "int option \<Rightarrow> int \<Rightarrow> int" where
  "py_or v d = (if truthy v then (case v of Some n \<Rightarrow> n | None \<Rightarrow> d) else d)"

text \<open>
  The bound of line 46. The Python literal \<open>1e-8\<close> is the double nearest to
  \<open>1 / 10 ^ 8\<close>, here \<open>py_1e_8\<close>. \<open>np.clip\<close> compares it with float32 norms and takes
  it as a float32: the float32 number nearest to the literal, \<open>f32_1e_8\<close>, whose
  significand 11258999 has 24 bits.
\<close>

definition py_1e_8 :: real where
  "py_1e_8 = 3022314549036573 / 2 ^ 78"

definition f32_1e_8 :: real where
  "f32_1e_8 = 11258999 / 2 ^ 50"

text \<open>
  \<open>np.array(rows, dtype=np.float32)\<close> (line 41): rows of different lengths raise
  \<open>ValueError\<close>; otherwise every number is converted to float32.
\<close>

definition np_array :: "(real \<Rightarrow> float32) \<Rightarrow> real list list \<Rightarrow> exn + ndarray" where
  "np_array cast rows =
     (case rows of
        [] \<Rightarrow> Inr (Arr1 [])
      | r # rs \<Rightarrow>
          if list_all (\<lambda>r'. length r' = length r) rs then Inr (Arr2 (map (map cast) rows))
          else Inl ValueError)"

text \<open>\<open>len\<close> of an array: the size of its first axis.\<close>

definition n_rows :: "ndarray \<Rightarrow> nat" where
  "n_rows a = (case a of Arr1 xs \<Rightarrow> length xs | Arr2 rows \<Rightarrow> length rows)"

text \<open>
  \<open>np.linalg.norm(a, axis=1, keepdims=True)\<close> (line 45): the norm of every row, one per
  row; a one-dimensional array has no axis 1.
\<close>

definition linalg_norm_axis1 :: "(float32 list \<Rightarrow> float32) \<Rightarrow> ndarray \<Rightarrow> exn + float32 list" where
  "linalg_norm_axis1 row_norm a =
     (case a of Arr1 xs \<Rightarrow> Inl AxisError | Arr2 rows \<Rightarrow> Inr (map row_norm rows))"

text \<open>The comparison \<open><\<close> of two float32 values: false as soon as one of them is NaN.\<close>

fun f32_less :: "float32 \<Rightarrow> float32 \<Rightarrow> bool" where
  "f32_less (Finite a) (Finite b) = (a < b)"
| "f32_less (Finite a) PosInf = True"
| "f32_less NegInf (Finite b) = True"
| "f32_less NegInf PosInf = True"
| "f32_less _ _ = False"

text \<open>\<open>np.maximum\<close>: the larger of two values, and NaN as soon as one of them is NaN.\<close>

definition np_maximum :: "float32 \<Rightarrow> float32 \<Rightarrow> float32" where
  "np_maximum x y = (if x = NaN \<or> y = NaN then NaN else if f32_less x y then y else x)"

text \<open>
  \<open>np.clip(xs, lo, None)\<close>: only the lower bound is given, and numpy takes the maximum
  of every entry and the bound.
\<close>

definition np_clip :: "float32 list \<Rightarrow> float32 \<Rightarrow> float32 list" where
  "np_clip xs lo = map (\<lambda>x. np_maximum x lo) xs"

text \<open>
  The quotient \<open>a / col\<close> of an array by an \<open>(n, 1)\<close> column, with numpy's broadcasting:
  row \<open>i\<close> of an \<open>(n, d)\<close> array is divided by entry \<open>i\<close> of the column, and a
  one-dimensional array of \<open>d\<close> entries gives one row per entry of the column.
\<close>

definition np_divide ::
  "(float32 \<Rightarrow> float32 \<Rightarrow> float32) \<Rightarrow> ndarray \<Rightarrow> float32 list \<Rightarrow> ndarray" where
  "np_divide quot a col =
     (case a of
        Arr1 xs \<Rightarrow> Arr2 (map (\<lambda>c. map (\<lambda>x. quot x c) xs) col)
      | Arr2 rows \<Rightarrow> Arr2 (map2 (\<lambda>r c. map (\<lambda>x. quot x c) r) rows col))"

text \<open>Lines 45 and 46, the body of the \<open>if\<close> of line 44.\<close>

definition l2_normalize :: "env \<Rightarrow> ndarray \<Rightarrow> exn + ndarray" where
  "l2_normalize env a =
     (case linalg_norm_axis1 (linalg_norm env) a of
        Inl e \<Rightarrow> Inl e
      | Inr norms \<Rightarrow>
          Inr (np_divide (true_divide env) a (np_clip norms (Finite f32_1e_8))))"

text \<open>\<open>labels.max()\<close>: the maximum of an empty array raises \<open>ValueError\<close>.\<close>

definition labels_max :: "int list \<Rightarrow> exn + int" where
  "labels_max ls = (case ls of [] \<Rightarrow> Inl ValueError | l # ls' \<Rightarrow> Inr (fold max ls' l))"

text \<open>\<open>(labels == -1).sum()\<close>: the sum of the truth values, \<open>True\<close> counting 1.\<close>

definition count_noise :: "int list \<Rightarrow> int" where
  "count_noise ls = sum_list (map (\<lambda>l. if l = - 1 then 1 else 0) ls)"

subsection \<open>The procedure\<close>

text \<open>Lines 65 to 70: the dictionary \<open>result\<close>, or the exception of \<open>labels.max()\<close>.\<close>

definition make_result :: "ident list \<Rightarrow> int list \<Rightarrow> exn + result" where
  "make_result is ls =
     (case labels_max ls of
        Inl e \<Rightarrow> Inl e
      | Inr m \<Rightarrow>
          Inr \<lparr>labels = ls, res_ids = is,
               n_clusters = (if m \<ge> 0 then m + 1 else 0),
               n_noise = count_noise ls\<rparr>)"

text \<open>
  An exception nobody catches: the interpreter prints its trace on standard error after
  what was already written, and the process exits with status 1.
\<close>

definition fault :: "event list \<Rightarrow> exn \<Rightarrow> run" where
  "fault evs e = \<lparr>events = evs @ [Traceback e], exit_code = 1\<rparr>"

text \<open>Lines 48 to 52: the five lines written before the clustering call.\<close>

definition config_lines :: "args \<Rightarrow> int \<Rightarrow> nat \<Rightarrow> event list" where
  "config_lines a ms n =
     [Stderr (''Clustering '' @ str_nat n @ '' vectors with HDBSCAN...''),
      Stderr (''  min_cluster_size='' @ str_int (min_cluster_size a)),
      Stderr (''  min_samples='' @ str_int ms),
      Stderr (''  metric='' @ metric a),
      Stderr (''  core_dist_n_jobs='' @ str_int (core_dist_n_jobs a))]"

text \<open>Lines 72 and 73: the summary line written after it.\<close>

definition summary_line :: "result \<Rightarrow> event" where
  "summary_line res =
     Stderr (''Found '' @ str_int (n_clusters res) @ '' clusters, '' @
             str_int (n_noise res) @ '' noise points'')"

text \<open>
  Lines 26 to 75. The \<open>except\<close> of line 32 catches \<open>ImportError\<close> only: any other
  exception of an import is not caught.
\<close>

definition main :: "env \<Rightarrow> args \<Rightarrow> run" where
  "main env a =
     (let ms = py_or (min_samples a) (min_cluster_size a) in
      case import_error env of
        Some x \<Rightarrow>
          (case x of
             ImportError e \<Rightarrow>
               \<lparr>events = [Stdout (ErrorDoc (''Missing dependency: '' @ e @
                            ''. Install with: pip install hdbscan numpy''))],
                exit_code = 1\<rparr>
           | _ \<Rightarrow> fault [] x)
      | None \<Rightarrow>
          (case stdin env of
             None \<Rightarrow> fault [] JSONDecodeError
           | Some data \<Rightarrow>
               (case np_array (np_float32 env) (embeddings data) of
                  Inl e \<Rightarrow> fault [] e
                | Inr emb0 \<Rightarrow>
                    (case (if metric a = ''euclidean'' then l2_normalize env emb0
                           else Inr emb0) of
                       Inl e \<Rightarrow> fault [] e
                     | Inr emb \<Rightarrow>
                         (let params = \<lparr>p_min_cluster_size = min_cluster_size a,
                                        p_min_samples = ms,
                                        p_metric = metric a,
                                        p_core_dist_n_jobs = core_dist_n_jobs a\<rparr>;
                              evs = config_lines a ms (length (ids data)) @
                                    [FitPredict params emb]
                          in case fit_predict env params emb of
                               Inl e \<Rightarrow> fault evs e
                             | Inr ls \<Rightarrow>
                                 (case make_result (ids data) ls of
                                    Inl e \<Rightarrow> fault evs e
                                  | Inr res \<Rightarrow>
                                      \<lparr>events = evs @ [summary_line res, Stdout (ResultDoc res)],
                                       exit_code = 0\<rparr>))))))"

subsection \<open>Observations of a run\<close>

fun stdout_docs :: "event list \<Rightarrow> json_out list" where
  "stdout_docs [] = []"
| "stdout_docs (Stdout d # es) = d # stdout_docs es"
| "stdout_docs (_ # es) = stdout_docs es"

fun stderr_lines :: "event list \<Rightarrow> string list" where
  "stderr_lines [] = []"
| "stderr_lines (Stderr s # es) = s # stderr_lines es"
| "stderr_lines (_ # es) = stderr_lines es"

fun clusterer_calls :: "event list \<Rightarrow> (hdbscan_params \<times> ndarray) list" where
  "clusterer_calls [] = []"
| "clusterer_calls (FitPredict p m # es) = (p, m) # clusterer_calls es"
| "clusterer_calls (_ # es) = clusterer_calls es"

subsection \<open>Concrete inputs\<close>

text \<open>The defaults of the four options (lines 18 to 23).\<close>

definition default_args :: args where
  "default_args =
     \<lparr>min_cluster_size = 4, min_samples = None, metric = ''euclidean'',
      core_dist_n_jobs = - 1\<rparr>"

text \<open>
  Float32 arithmetic for the inputs below. Every entry, norm and quotient that occurs in
  them is a float32 number, so numpy computes exactly these values on them: a number is
  kept as it is, the norm is the root of the sum of the squares, the quotient is the
  quotient.
\<close>

definition sample_float32 :: "real \<Rightarrow> float32" where
  "sample_float32 x = Finite x"

fun finite_val :: "float32 \<Rightarrow> real" where
  "finite_val (Finite x) = x"
| "finite_val _ = 0"

definition sample_norm :: "float32 list \<Rightarrow> float32" where
  "sample_norm r = Finite (sqrt (sum_list (map (\<lambda>x. finite_val x * finite_val x) r)))"

fun sample_divide :: "float32 \<Rightarrow> float32 \<Rightarrow> float32" where
  "sample_divide (Finite a) (Finite b) = Finite (a / b)"
| "sample_divide _ _ = NaN"

text \<open>
  A clustering routine to run the model with: one label per row, \<open>-1\<close> for a row of
  zeros and \<open>0\<close> for every other row.
\<close>

definition sample_clusterer :: "hdbscan_params \<Rightarrow> ndarray \<Rightarrow> exn + int list" where
  "sample_clusterer p m =
     (case m of
        Arr1 xs \<Rightarrow> Inr (map (\<lambda>x. - 1) xs)
      | Arr2 rows \<Rightarrow>
          Inr (map (\<lambda>r. if list_all (\<lambda>x. x = Finite 0) r then - 1 else 0) rows))"

definition sample_doc :: document where
  "sample_doc =
     \<lparr>ids = [IdStr ''a'', IdStr ''b'', IdInt 7],
      embeddings = [[0, 2], [0, 0], [8, 0]]\<rparr>"

definition sample_env :: env where
  "sample_env =
     \<lparr>import_error = None, stdin = Some sample_doc,
      np_float32 = sample_float32, linalg_norm = sample_norm, true_divide = sample_divide,
      fit_predict = sample_clusterer\<rparr>"

text \<open>
  One row whose norm, half the float32 value of \<open>1e-8\<close>, is below the bound of line 46
  and is not zero.
\<close>

definition tiny_env :: env where
  "tiny_env = sample_env\<lparr>stdin := Some \<lparr>ids = [IdStr ''t''], embeddings = [[f32_1e_8 / 2, 0]]\<rparr>\<rparr>"

text \<open>A machine without the clustering library, and text on standard input that is not JSON.\<close>

definition missing_env :: env where
  "missing_env =
     sample_env\<lparr>import_error := Some (ImportError ''No module named hdbscan''), stdin := None\<rparr>"

text \<open>
  A machine on which the clustering library is installed but was built against another
  numpy: loading it raises \<open>ValueError\<close>.
\<close>

definition abi_env :: env where
  "abi_env = sample_env\<lparr>import_error := Some ValueError\<rparr>"

text \<open>Both libraries present, and text on standard input that is not JSON.\<close>

definition garbled_env :: env where
  "garbled_env = sample_env\<lparr>stdin := None\<rparr>"

text \<open>The document \<open>{"ids": [], "embeddings": []}\<close>.\<close>

definition empty_env :: env where
  "empty_env = sample_env\<lparr>stdin := Some \<lparr>ids = [], embeddings = []\<rparr>\<rparr>"

text \<open>The same document, and a clustering routine that refuses an array without rows.\<close>

definition refusing_env :: env where
  "refusing_env =
     empty_env\<lparr>fit_predict := (\<lambda>p m. if n_rows m = 0 then Inl (LibraryError ''no samples'')
                                  else sample_clusterer p m)\<rparr>"

text \<open>Two zero vectors: the sample routine labels both as noise.\<close>

definition noise_env :: env where
  "noise_env =
     sample_env\<lparr>stdin := Some \<lparr>ids = [IdStr ''x'', IdStr ''y''], embeddings = [[0, 0], [0, 0]]\<rparr>\<rparr>"

section \<open>Properties\<close>

subsection \<open>The observations distribute over the parts of a run\<close>

lemma stdout_docs_append [simp]: "stdout_docs (xs @ ys) = stdout_docs xs @ stdout_docs ys"
  by (induction xs rule: stdout_docs.induct) simp_all

lemma stderr_lines_append [simp]: "stderr_lines (xs @ ys) = stderr_lines xs @ stderr_lines ys"
  by (induction xs rule: stderr_lines.induct) simp_all

lemma clusterer_calls_append [simp]:
  "clusterer_calls (xs @ ys) = clusterer_calls xs @ clusterer_calls ys"
  by (induction xs rule: clusterer_calls.induct) simp_all

lemma stdout_docs_config [simp]: "stdout_docs (config_lines a ms n) = []"
  by (simp add: config_lines_def)

lemma clusterer_calls_config [simp]: "clusterer_calls (config_lines a ms n) = []"
  by (simp add: config_lines_def)

lemma stderr_lines_config [simp]: "length (stderr_lines (config_lines a ms n)) = 5"
  by (simp add: config_lines_def)

subsection \<open>The numpy steps\<close>

lemma labels_max_Nil: "labels_max [] = Inl ValueError"
  by (simp add: labels_max_def)

lemma labels_max_Max:
  assumes "ls \<noteq> []"
  shows "labels_max ls = Inr (Max (set ls))"
proof (cases ls)
  case Nil
  with assms show ?thesis by simp
next
  case (Cons l ls')
  have "fold max ls' l = Max (set (l # ls'))"
    by (simp only: Max.set_eq_fold)
  with Cons show ?thesis
    by (simp add: labels_max_def)
qed

lemma count_noise_filter: "count_noise ls = int (length (filter (\<lambda>l. l = - 1) ls))"
  by (induction ls) (simp_all add: count_noise_def)

lemma zip_map_self: "zip xs (map f xs) = map (\<lambda>x. (x, f x)) xs"
  by (induction xs) simp_all

lemma np_divide_clip:
  "np_divide q (Arr2 rows) (np_clip (map nrm rows) lo) =
     Arr2 (map (\<lambda>r. map (\<lambda>x. q x (np_maximum (nrm r) lo)) r) rows)"
  by (simp add: np_divide_def np_clip_def zip_map_self o_def)

lemma l2_normalize_Arr2:
  "l2_normalize env (Arr2 rows) =
     Inr (Arr2 (map (\<lambda>r. map (\<lambda>x. true_divide env x
        (np_maximum (linalg_norm env r) (Finite f32_1e_8))) r) rows))"
  by (simp add: l2_normalize_def linalg_norm_axis1_def np_divide_clip)

lemma l2_normalize_Arr1: "l2_normalize env (Arr1 xs) = Inl AxisError"
  by (simp add: l2_normalize_def linalg_norm_axis1_def)


lemma f32_1e_8_pos: "0 < f32_1e_8"
  by (simp add: f32_1e_8_def)




lemma make_result_Inr:
  assumes "make_result is ls = Inr r"
  shows "ls \<noteq> [] \<and> labels r = ls \<and> res_ids r = is \<and>
         n_clusters r = (if \<exists>l\<in>set ls. 0 \<le> l then Max (set ls) + 1 else 0) \<and>
         n_noise r = int (length (filter (\<lambda>l. l = - 1) ls))"
proof -
  from assms have ne: "ls \<noteq> []"
    by (auto simp: make_result_def labels_max_Nil)
  then have "(0 \<le> Max (set ls)) = (\<exists>l\<in>set ls. 0 \<le> l)"
    by (simp add: Max_ge_iff)
  with assms ne show ?thesis
    by (auto simp: make_result_def labels_max_Max count_noise_filter)
qed

lemma make_result_total:
  assumes "ls \<noteq> []"
  shows "\<exists>r. make_result is ls = Inr r \<and> labels r = ls"
  using assms by (simp add: make_result_def labels_max_Max)

lemma np_array_rows:
  assumes "np_array cast rows = Inr m"
  shows "n_rows m = length rows"
  using assms by (auto simp: np_array_def n_rows_def split: list.splits if_splits)

lemma np_array_uniform:
  assumes "rows \<noteq> []" and "\<forall>r\<in>set rows. length r = d"
  shows "np_array cast rows = Inr (Arr2 (map (map cast) rows))"
  using assms by (cases rows) (auto simp: np_array_def list_all_iff)

lemma l2_normalize_rows:
  assumes "l2_normalize env m = Inr m'"
  shows "n_rows m' = n_rows m"
  using assms by (cases m) (auto simp: l2_normalize_Arr1 l2_normalize_Arr2 n_rows_def)

subsection \<open>The shape of a run\<close>

text \<open>A run that prints the result record has passed every step, and is the full trace.\<close>

lemma main_result:
  assumes "ResultDoc r \<in> set (stdout_docs (events (main env a)))"
  obtains data emb0 emb ls where
    "import_error env = None" "stdin env = Some data"
    "np_array (np_float32 env) (embeddings data) = Inr emb0"
    "(if metric a = ''euclidean'' then l2_normalize env emb0 else Inr emb0) = Inr emb"
    "fit_predict env \<lparr>p_min_cluster_size = min_cluster_size a,
        p_min_samples = py_or (min_samples a) (min_cluster_size a),
        p_metric = metric a, p_core_dist_n_jobs = core_dist_n_jobs a\<rparr> emb = Inr ls"
    "make_result (ids data) ls = Inr r"
    "main env a =
       \<lparr>events = config_lines a (py_or (min_samples a) (min_cluster_size a)) (length (ids data)) @
          [FitPredict \<lparr>p_min_cluster_size = min_cluster_size a,
              p_min_samples = py_or (min_samples a) (min_cluster_size a),
              p_metric = metric a, p_core_dist_n_jobs = core_dist_n_jobs a\<rparr> emb,
           summary_line r, Stdout (ResultDoc r)],
        exit_code = 0\<rparr>"
  using assms
  by (auto simp: main_def fault_def Let_def summary_line_def
      split: option.splits sum.splits exn.splits if_splits)

text \<open>Only such a run ends with status 0.\<close>

lemma main_exit0:
  assumes "exit_code (main env a) = 0"
  obtains r where "ResultDoc r \<in> set (stdout_docs (events (main env a)))"
  using assms
  by (auto simp: main_def fault_def Let_def summary_line_def
      split: option.splits sum.splits exn.splits if_splits)

text \<open>The clustering routine is called at most once, with the arguments of lines 55 to 60.\<close>

lemma main_calls:
  "clusterer_calls (events (main env a)) = [] \<or>
   (\<exists>m. clusterer_calls (events (main env a)) =
      [(\<lparr>p_min_cluster_size = min_cluster_size a,
          p_min_samples = py_or (min_samples a) (min_cluster_size a),
          p_metric = metric a, p_core_dist_n_jobs = core_dist_n_jobs a\<rparr>, m)])"
  by (auto simp: main_def fault_def Let_def summary_line_def
      split: option.splits sum.splits exn.splits if_splits)

subsection \<open>Evaluating the concrete inputs\<close>

lemma py_1e_8_near: "\<bar>py_1e_8 - 1 / 10 ^ 8\<bar> < 1 / 10 ^ 24"
  by (simp add: py_1e_8_def)

lemma f32_1e_8_bounds: "f32_1e_8 \<noteq> 0" "\<not> 2 < f32_1e_8" "\<not> 8 < f32_1e_8"
  by (simp_all add: f32_1e_8_def)

lemma sqrt_64: "sqrt 64 = 8"
  by (rule real_sqrt_unique) simp_all

lemma half_floor_facts:
  "f32_1e_8 / 2 < f32_1e_8" "f32_1e_8 / 2 / f32_1e_8 = 1 / 2" "f32_1e_8 / 2 \<noteq> 0"
  using f32_1e_8_pos by simp_all

lemma sample_norm_tiny:
  "sample_norm [Finite (f32_1e_8 / 2), Finite 0] = Finite (f32_1e_8 / 2)"
proof -
  have "sqrt (f32_1e_8 / 2 * (f32_1e_8 / 2)) = \<bar>f32_1e_8 / 2\<bar>"
    by (rule real_sqrt_abs2)
  also have "\<dots> = f32_1e_8 / 2"
    using f32_1e_8_pos by simp
  finally have "sqrt (f32_1e_8 / 2 * (f32_1e_8 / 2)) = f32_1e_8 / 2" .
  then show ?thesis
    by (simp add: sample_norm_def)
qed

lemma sample_norm_simps:
  "sample_norm [Finite 0, Finite 2] = Finite 2"
  "sample_norm [Finite 0, Finite 0] = Finite 0"
  "sample_norm [Finite 8, Finite 0] = Finite 8"
  by (simp_all add: sample_norm_def sqrt_64)

lemmas sample_defs =
  sample_env_def sample_doc_def sample_clusterer_def default_args_def missing_env_def
  garbled_env_def empty_env_def noise_env_def tiny_env_def abi_env_def refusing_env_def

lemmas run_defs =
  main_def np_array_def l2_normalize_Arr2 l2_normalize_Arr1 np_maximum_def
  config_lines_def py_or_def truthy_def Let_def fault_def make_result_def
  labels_max_def summary_line_def count_noise_def n_rows_def
  sample_float32_def sample_norm_simps sample_norm_tiny half_floor_facts
  f32_1e_8_pos f32_1e_8_bounds

lemma str_small:
  "str_int 0 = ''0''" "str_int 1 = ''1''" "str_int 2 = ''2''" "str_int 4 = ''4''"
  "str_int (- 1) = ''-1''" "str_nat 0 = ''0''" "str_nat (Suc 0) = ''1''"
  "str_nat (Suc (Suc 0)) = ''2''" "str_nat (Suc (Suc (Suc 0))) = ''3''"
  by code_simp+

lemma sample_run:
  "main sample_env default_args =
     \<lparr>events =
        [Stderr ''Clustering 3 vectors with HDBSCAN...'',
         Stderr ''  min_cluster_size=4'',
         Stderr ''  min_samples=4'',
         Stderr ''  metric=euclidean'',
         Stderr ''  core_dist_n_jobs=-1'',
         FitPredict \<lparr>p_min_cluster_size = 4, p_min_samples = 4, p_metric = ''euclidean'',
                      p_core_dist_n_jobs = - 1\<rparr>
           (Arr2 [[Finite 0, Finite 1], [Finite 0, Finite 0], [Finite 1, Finite 0]]),
         Stderr ''Found 1 clusters, 1 noise points'',
         Stdout (ResultDoc \<lparr>labels = [0, - 1, 0],
                            res_ids = [IdStr ''a'', IdStr ''b'', IdInt 7],
                            n_clusters = 1, n_noise = 1\<rparr>)],
      exit_code = 0\<rparr>"
  by (simp add: run_defs sample_defs str_small)

lemma tiny_run:
  "main tiny_env default_args =
     \<lparr>events =
        [Stderr ''Clustering 1 vectors with HDBSCAN...'',
         Stderr ''  min_cluster_size=4'',
         Stderr ''  min_samples=4'',
         Stderr ''  metric=euclidean'',
         Stderr ''  core_dist_n_jobs=-1'',
         FitPredict \<lparr>p_min_cluster_size = 4, p_min_samples = 4, p_metric = ''euclidean'',
                      p_core_dist_n_jobs = - 1\<rparr>
           (Arr2 [[Finite (1 / 2), Finite 0]]),
         Stderr ''Found 1 clusters, 0 noise points'',
         Stdout (ResultDoc \<lparr>labels = [0], res_ids = [IdStr ''t''],
                            n_clusters = 1, n_noise = 0\<rparr>)],
      exit_code = 0\<rparr>"
  by (simp add: run_defs sample_defs str_small)

lemma noise_run:
  "main noise_env default_args =
     \<lparr>events =
        [Stderr ''Clustering 2 vectors with HDBSCAN...'',
         Stderr ''  min_cluster_size=4'',
         Stderr ''  min_samples=4'',
         Stderr ''  metric=euclidean'',
         Stderr ''  core_dist_n_jobs=-1'',
         FitPredict \<lparr>p_min_cluster_size = 4, p_min_samples = 4, p_metric = ''euclidean'',
                      p_core_dist_n_jobs = - 1\<rparr>
           (Arr2 [[Finite 0, Finite 0], [Finite 0, Finite 0]]),
         Stderr ''Found 0 clusters, 2 noise points'',
         Stdout (ResultDoc \<lparr>labels = [- 1, - 1],
                            res_ids = [IdStr ''x'', IdStr ''y''],
                            n_clusters = 0, n_noise = 2\<rparr>)],
      exit_code = 0\<rparr>"
  by (simp add: run_defs sample_defs str_small)




lemma sample_calls:
  "map fst (clusterer_calls (events (main sample_env a))) =
     [\<lparr>p_min_cluster_size = min_cluster_size a,
       p_min_samples = py_or (min_samples a) (min_cluster_size a),
       p_metric = metric a, p_core_dist_n_jobs = core_dist_n_jobs a\<rparr>]"
  by (simp add: main_def sample_defs np_array_def l2_normalize_Arr2 Let_def fault_def
      make_result_def labels_max_def summary_line_def)

lemma sample_clusterer_rows:
  assumes "sample_clusterer p m = Inr ls"
  shows "length ls = n_rows m"
  using assms by (auto simp: sample_clusterer_def n_rows_def split: ndarray.splits)

section \<open>The claims\<close>



text \<open>
  C2. In every result record the script prints, \<open>labels\<close> is the array the clustering
  routine returned, \<open>n_clusters\<close> is the maximum label plus one when some label is at
  least 0 and 0 otherwise, and \<open>n_noise\<close> is the number of labels equal to \<open>-1\<close>.
\<close>

theorem result_counts_from_labels:
  assumes "ResultDoc r \<in> set (stdout_docs (events (main env a)))"
  shows "(\<exists>p m. (p, m) \<in> set (clusterer_calls (events (main env a))) \<and>
                fit_predict env p m = Inr (labels r)) \<and>
         n_clusters r = (if \<exists>l\<in>set (labels r). 0 \<le> l then Max (set (labels r)) + 1 else 0) \<and>
         n_noise r = int (length (filter (\<lambda>l. l = - 1) (labels r)))"
  using assms
proof (rule main_result)
  fix data emb ls
  let ?p = "\<lparr>p_min_cluster_size = min_cluster_size a,
        p_min_samples = py_or (min_samples a) (min_cluster_size a),
        p_metric = metric a, p_core_dist_n_jobs = core_dist_n_jobs a\<rparr>"
  assume fp: "fit_predict env ?p emb = Inr ls"
    and mr: "make_result (ids data) ls = Inr r"
    and ev: "main env a =
       \<lparr>events = config_lines a (py_or (min_samples a) (min_cluster_size a)) (length (ids data)) @
          [FitPredict ?p emb, summary_line r, Stdout (ResultDoc r)],
        exit_code = 0\<rparr>"
  from make_result_Inr [OF mr] have lab: "labels r = ls"
    and nc: "n_clusters r = (if \<exists>l\<in>set ls. 0 \<le> l then Max (set ls) + 1 else 0)"
    and nn: "n_noise r = int (length (filter (\<lambda>l. l = - 1) ls))"
    by simp_all
  have "(?p, emb) \<in> set (clusterer_calls (events (main env a)))"
    by (simp add: ev summary_line_def)
  with fp lab nc nn show ?thesis by blast
qed

theorem result_counts_from_labels_witness:
  "stdout_docs (events (main sample_env default_args)) =
     [ResultDoc \<lparr>labels = [0, - 1, 0], res_ids = [IdStr ''a'', IdStr ''b'', IdInt 7],
                 n_clusters = Max (set [0, - 1, 0]) + 1,
                 n_noise = int (length (filter (\<lambda>l. l = - 1) [0, - 1, 0 :: int]))\<rparr>] \<and>
   stdout_docs (events (main noise_env default_args)) =
     [ResultDoc \<lparr>labels = [- 1, - 1], res_ids = [IdStr ''x'', IdStr ''y''],
                 n_clusters = 0,
                 n_noise = int (length (filter (\<lambda>l. l = - 1) [- 1, - 1 :: int]))\<rparr>]"
proof -
  let ?r = "\<lparr>labels = [0, - 1, 0], res_ids = [IdStr ''a'', IdStr ''b'', IdInt 7],
              n_clusters = 1, n_noise = 1\<rparr>"
  let ?n = "\<lparr>labels = [- 1, - 1], res_ids = [IdStr ''x'', IdStr ''y''],
              n_clusters = 0, n_noise = 2\<rparr>"
  have r: "ResultDoc ?r \<in> set (stdout_docs (events (main sample_env default_args)))"
    by (simp add: sample_run)
  have n: "ResultDoc ?n \<in> set (stdout_docs (events (main noise_env default_args)))"
    by (simp add: noise_run)
  show ?thesis
    using result_counts_from_labels [OF r] result_counts_from_labels [OF n]
    by (simp add: sample_run noise_run)
qed




text \<open>
  C4. When \<open>ids\<close> and \<open>embeddings\<close> have the same length, all rows have one length,
  and the clustering routine answers with one label per row of its argument whenever it
  answers, every result record printed has as many labels as there are ids. When the
  routine always answers and there is at least one row, the record is printed.
\<close>

theorem labels_length_matches_ids:
  assumes imp: "import_error env = None" and inp: "stdin env = Some data"
    and len: "length (ids data) = length (embeddings data)"
    and dim: "\<forall>r\<in>set (embeddings data). length r = d"
    and clu: "\<forall>p m ls. fit_predict env p m = Inr ls \<longrightarrow> length ls = n_rows m"
  shows "(\<forall>r. ResultDoc r \<in> set (stdout_docs (events (main env a))) \<longrightarrow>
            length (labels r) = length (ids data)) \<and>
         (embeddings data \<noteq> [] \<and> (\<forall>p m. \<exists>ls. fit_predict env p m = Inr ls) \<longrightarrow>
            (\<exists>r. stdout_docs (events (main env a)) = [ResultDoc r] \<and>
                 length (labels r) = length (ids data)))"
proof (intro conjI allI impI)
  fix r
  assume "ResultDoc r \<in> set (stdout_docs (events (main env a)))"
  then show "length (labels r) = length (ids data)"
  proof (rule main_result)
    fix data' emb0 emb ls
    assume d: "stdin env = Some data'"
      and na: "np_array (np_float32 env) (embeddings data') = Inr emb0"
      and nm: "(if metric a = ''euclidean'' then l2_normalize env emb0 else Inr emb0) = Inr emb"
      and fp: "fit_predict env \<lparr>p_min_cluster_size = min_cluster_size a,
        p_min_samples = py_or (min_samples a) (min_cluster_size a),
        p_metric = metric a, p_core_dist_n_jobs = core_dist_n_jobs a\<rparr> emb = Inr ls"
      and mr: "make_result (ids data') ls = Inr r"
    from d inp have [simp]: "data' = data" by simp
    from nm have "n_rows emb = n_rows emb0"
      by (auto simp: l2_normalize_rows split: if_splits)
    also from na have "\<dots> = length (embeddings data)"
      by (simp add: np_array_rows)
    finally have "n_rows emb = length (ids data)"
      by (simp add: len)
    moreover from fp clu have "length ls = n_rows emb" by blast
    moreover from make_result_Inr [OF mr] have "labels r = ls" by simp
    ultimately show ?thesis by simp
  qed
next
  assume h: "embeddings data \<noteq> [] \<and> (\<forall>p m. \<exists>ls. fit_predict env p m = Inr ls)"
  let ?p = "\<lparr>p_min_cluster_size = min_cluster_size a,
        p_min_samples = py_or (min_samples a) (min_cluster_size a),
        p_metric = metric a, p_core_dist_n_jobs = core_dist_n_jobs a\<rparr>"
  let ?m = "Arr2 (map (map (np_float32 env)) (embeddings data))"
  from h dim have na: "np_array (np_float32 env) (embeddings data) = Inr ?m"
    using np_array_uniform [of "embeddings data" d] by blast
  obtain emb where nm:
    "(if metric a = ''euclidean'' then l2_normalize env ?m else Inr ?m) = Inr emb"
    and nr: "n_rows emb = length (embeddings data)"
    by (cases "metric a = ''euclidean''") (simp_all add: l2_normalize_Arr2 n_rows_def)
  from h obtain ls where fp: "fit_predict env ?p emb = Inr ls" by blast
  with clu have ll: "length ls = n_rows emb" by blast
  with nr h have "ls \<noteq> []" by auto
  then obtain r where mr: "make_result (ids data) ls = Inr r" and lab: "labels r = ls"
    using make_result_total by blast
  have "stdout_docs (events (main env a)) = [ResultDoc r]"
    using imp inp na nm fp mr by (simp add: main_def Let_def summary_line_def)
  with lab ll nr len show "\<exists>r. stdout_docs (events (main env a)) = [ResultDoc r] \<and>
      length (labels r) = length (ids data)"
    by auto
qed

theorem labels_length_matches_ids_witness:
  "length (ids sample_doc) = length (embeddings sample_doc) \<and>
   (\<exists>r. stdout_docs (events (main sample_env default_args)) = [ResultDoc r] \<and>
        length (labels r) = length (ids sample_doc))"
proof -
  have imp: "import_error sample_env = None" and inp: "stdin sample_env = Some sample_doc"
    by (simp_all add: sample_env_def)
  have len: "length (ids sample_doc) = length (embeddings sample_doc)"
    by (simp add: sample_doc_def)
  have dim: "\<forall>r\<in>set (embeddings sample_doc). length r = 2"
    by (simp add: sample_doc_def)
  have clu: "\<forall>p m ls. fit_predict sample_env p m = Inr ls \<longrightarrow> length ls = n_rows m"
    by (simp add: sample_env_def sample_clusterer_rows)
  have ne: "embeddings sample_doc \<noteq> []"
    by (simp add: sample_doc_def)
  have tot: "\<forall>p m. \<exists>ls. fit_predict sample_env p m = Inr ls"
    by (simp add: sample_env_def sample_clusterer_def split: ndarray.splits)
  from labels_length_matches_ids [OF imp inp len dim clu, of default_args] ne tot len show ?thesis
    by blast
qed




text \<open>
  C6. The \<open>ids\<close> of every result record printed are the \<open>ids\<close> of the input document,
  whatever the options, the embeddings and the clustering routine.
\<close>

theorem ids_echoed_unchanged:
  assumes "ResultDoc r \<in> set (stdout_docs (events (main env a)))"
  shows "\<exists>data. stdin env = Some data \<and> res_ids r = ids data"
  using assms
proof (rule main_result)
  fix data ls
  assume "stdin env = Some data" and "make_result (ids data) ls = Inr r"
  with make_result_Inr show ?thesis by blast
qed

theorem ids_echoed_unchanged_witness:
  "stdin sample_env = Some sample_doc \<and>
   stdout_docs (events (main sample_env default_args)) =
     [ResultDoc \<lparr>labels = [0, - 1, 0], res_ids = ids sample_doc, n_clusters = 1, n_noise = 1\<rparr>]"
proof -
  let ?r = "\<lparr>labels = [0, - 1, 0], res_ids = [IdStr ''a'', IdStr ''b'', IdInt 7],
              n_clusters = 1, n_noise = 1\<rparr>"
  have h: "ResultDoc ?r \<in> set (stdout_docs (events (main sample_env default_args)))"
    by (simp add: sample_run)
  have s: "stdin sample_env = Some sample_doc"
    by (simp add: sample_env_def)
  from ids_echoed_unchanged [OF h] s have "res_ids ?r = ids sample_doc" by simp
  with s show ?thesis
    by (simp add: sample_run)
qed

text \<open>
  C7. A run that ends with status 0 writes exactly one document to standard output, the
  result record, as its last event: every line on standard error comes before it.
\<close>

theorem single_stdout_document_last:
  assumes "exit_code (main env a) = 0"
  shows "\<exists>pre r. events (main env a) = pre @ [Stdout (ResultDoc r)] \<and>
                stdout_docs pre = [] \<and>
                stderr_lines pre = stderr_lines (events (main env a)) \<and>
                stdout_docs (events (main env a)) = [ResultDoc r]"
proof -
  from assms obtain r where "ResultDoc r \<in> set (stdout_docs (events (main env a)))"
    by (rule main_exit0)
  then show ?thesis
  proof (rule main_result)
    fix data :: document and emb
    let ?pre = "config_lines a (py_or (min_samples a) (min_cluster_size a)) (length (ids data)) @
          [FitPredict \<lparr>p_min_cluster_size = min_cluster_size a,
              p_min_samples = py_or (min_samples a) (min_cluster_size a),
              p_metric = metric a, p_core_dist_n_jobs = core_dist_n_jobs a\<rparr> emb,
           summary_line r]"
    assume "main env a =
       \<lparr>events = config_lines a (py_or (min_samples a) (min_cluster_size a)) (length (ids data)) @
          [FitPredict \<lparr>p_min_cluster_size = min_cluster_size a,
              p_min_samples = py_or (min_samples a) (min_cluster_size a),
              p_metric = metric a, p_core_dist_n_jobs = core_dist_n_jobs a\<rparr> emb,
           summary_line r, Stdout (ResultDoc r)],
        exit_code = 0\<rparr>"
    then have "events (main env a) = ?pre @ [Stdout (ResultDoc r)]"
      by simp
    moreover have "stdout_docs ?pre = []"
      by (simp add: summary_line_def)
    ultimately show ?thesis
      by (intro exI [of _ ?pre] exI [of _ r]) (simp add: summary_line_def)
  qed
qed

theorem single_stdout_document_last_witness:
  "exit_code (main sample_env default_args) = 0 \<and>
   (\<exists>pre r. events (main sample_env default_args) = pre @ [Stdout (ResultDoc r)] \<and>
            stdout_docs pre = [] \<and>
            stderr_lines pre = stderr_lines (events (main sample_env default_args)) \<and>
            stdout_docs (events (main sample_env default_args)) = [ResultDoc r])"
proof -
  have h: "exit_code (main sample_env default_args) = 0"
    by (simp add: sample_run)
  from h single_stdout_document_last [OF h] show ?thesis by blast
qed

text \<open>
  C8, as amended. A run that ends with status 0 calls the clustering routine once and
  writes six lines to standard error. Five come before the call: a header with the number
  of ids, then the minimum cluster size, the \<open>min_samples\<close> value passed to the routine,
  the metric and the number of jobs. One comes after it: the numbers of clusters and of
  noise points of the result record, which is printed last.
\<close>

theorem six_progress_lines:
  assumes "exit_code (main env a) = 0"
  shows "\<exists>data r p m pre post.
           stdin env = Some data \<and>
           events (main env a) = pre @ FitPredict p m # post \<and>
           clusterer_calls pre = [] \<and> clusterer_calls post = [] \<and>
           stdout_docs pre = [] \<and>
           stderr_lines pre =
             [''Clustering '' @ str_nat (length (ids data)) @ '' vectors with HDBSCAN...'',
              ''  min_cluster_size='' @ str_int (min_cluster_size a),
              ''  min_samples='' @ str_int (p_min_samples p),
              ''  metric='' @ metric a,
              ''  core_dist_n_jobs='' @ str_int (core_dist_n_jobs a)] \<and>
           stderr_lines post =
             [''Found '' @ str_int (n_clusters r) @ '' clusters, '' @
              str_int (n_noise r) @ '' noise points''] \<and>
           stdout_docs post = [ResultDoc r]"
proof -
  from assms obtain r where "ResultDoc r \<in> set (stdout_docs (events (main env a)))"
    by (rule main_exit0)
  then show ?thesis
  proof (rule main_result)
    fix data :: document and emb
    let ?pre = "config_lines a (py_or (min_samples a) (min_cluster_size a)) (length (ids data))"
    let ?p = "\<lparr>p_min_cluster_size = min_cluster_size a,
              p_min_samples = py_or (min_samples a) (min_cluster_size a),
              p_metric = metric a, p_core_dist_n_jobs = core_dist_n_jobs a\<rparr>"
    let ?post = "[summary_line r, Stdout (ResultDoc r)]"
    assume d: "stdin env = Some data"
      and "main env a =
       \<lparr>events = ?pre @ [FitPredict ?p emb, summary_line r, Stdout (ResultDoc r)],
        exit_code = 0\<rparr>"
    then have ev: "events (main env a) = ?pre @ FitPredict ?p emb # ?post"
      by simp
    have pre: "stderr_lines ?pre =
        [''Clustering '' @ str_nat (length (ids data)) @ '' vectors with HDBSCAN...'',
         ''  min_cluster_size='' @ str_int (min_cluster_size a),
         ''  min_samples='' @ str_int (p_min_samples ?p),
         ''  metric='' @ metric a,
         ''  core_dist_n_jobs='' @ str_int (core_dist_n_jobs a)]"
      by (simp add: config_lines_def)
    have post: "clusterer_calls ?post = []" "stdout_docs ?post = [ResultDoc r]"
      "stderr_lines ?post =
        [''Found '' @ str_int (n_clusters r) @ '' clusters, '' @
         str_int (n_noise r) @ '' noise points'']"
      by (simp_all add: summary_line_def)
    have "stdin env = Some data \<and>
        events (main env a) = ?pre @ FitPredict ?p emb # ?post \<and>
        clusterer_calls ?pre = [] \<and> clusterer_calls ?post = [] \<and>
        stdout_docs ?pre = [] \<and>
        stderr_lines ?pre =
          [''Clustering '' @ str_nat (length (ids data)) @ '' vectors with HDBSCAN...'',
           ''  min_cluster_size='' @ str_int (min_cluster_size a),
           ''  min_samples='' @ str_int (p_min_samples ?p),
           ''  metric='' @ metric a,
           ''  core_dist_n_jobs='' @ str_int (core_dist_n_jobs a)] \<and>
        stderr_lines ?post =
          [''Found '' @ str_int (n_clusters r) @ '' clusters, '' @
           str_int (n_noise r) @ '' noise points''] \<and>
        stdout_docs ?post = [ResultDoc r]"
      using d ev pre post by simp
    then show ?thesis by blast
  qed
qed

theorem six_progress_lines_witness:
  "exit_code (main sample_env default_args) = 0 \<and>
   stderr_lines (events (main sample_env default_args)) =
     [''Clustering 3 vectors with HDBSCAN...'',
      ''  min_cluster_size=4'',
      ''  min_samples=4'',
      ''  metric=euclidean'',
      ''  core_dist_n_jobs=-1'',
      ''Found 1 clusters, 1 noise points''] \<and>
   (\<exists>data r p m pre post.
       stdin sample_env = Some data \<and>
       events (main sample_env default_args) = pre @ FitPredict p m # post \<and>
       clusterer_calls pre = [] \<and> clusterer_calls post = [] \<and>
       stdout_docs pre = [] \<and>
       stderr_lines pre =
         [''Clustering '' @ str_nat (length (ids data)) @ '' vectors with HDBSCAN...'',
          ''  min_cluster_size='' @ str_int (min_cluster_size default_args),
          ''  min_samples='' @ str_int (p_min_samples p),
          ''  metric='' @ metric default_args,
          ''  core_dist_n_jobs='' @ str_int (core_dist_n_jobs default_args)] \<and>
       stderr_lines post =
         [''Found '' @ str_int (n_clusters r) @ '' clusters, '' @
          str_int (n_noise r) @ '' noise points''] \<and>
       stdout_docs post = [ResultDoc r])"
proof -
  have h: "exit_code (main sample_env default_args) = 0"
    by (simp add: sample_run)
  have l: "stderr_lines (events (main sample_env default_args)) =
     [''Clustering 3 vectors with HDBSCAN...'',
      ''  min_cluster_size=4'',
      ''  min_samples=4'',
      ''  metric=euclidean'',
      ''  core_dist_n_jobs=-1'',
      ''Found 1 clusters, 1 noise points'']"
    by (simp add: sample_run)
  from h l six_progress_lines [OF h] show ?thesis by blast
qed

text \<open>
  six_progress_lines as stated fails: a successful run writes six lines to standard error, not three or
  four.
\<close>

theorem progress_lines_not_three_or_four:
  "exit_code (main sample_env default_args) = 0 \<and>
   length (stderr_lines (events (main sample_env default_args))) = 6 \<and>
   length (stderr_lines (events (main sample_env default_args))) \<notin> {3, 4}"
  by (simp add: sample_run)

text \<open>
  C9. Whenever the clustering routine is called, its \<open>min_samples\<close> argument is the
  minimum cluster size when \<open>--min-samples\<close> was omitted and also when it was given as
  0, and is the given value when that is not 0.
\<close>

theorem effective_min_samples:
  assumes "(p, m) \<in> set (clusterer_calls (events (main env a)))"
  shows "(min_samples a = None \<longrightarrow> p_min_samples p = min_cluster_size a) \<and>
         (min_samples a = Some 0 \<longrightarrow> p_min_samples p = min_cluster_size a) \<and>
         (\<forall>n. min_samples a = Some n \<and> n \<noteq> 0 \<longrightarrow> p_min_samples p = n)"
  using assms main_calls [of env a]
  by (auto simp: py_or_def truthy_def)

theorem effective_min_samples_witness:
  "map (\<lambda>c. p_min_samples (fst c))
     (clusterer_calls (events (main sample_env (default_args\<lparr>min_samples := Some 0\<rparr>)))) = [4] \<and>
   map (\<lambda>c. p_min_samples (fst c))
     (clusterer_calls (events (main sample_env default_args))) = [4] \<and>
   map (\<lambda>c. p_min_samples (fst c))
     (clusterer_calls (events (main sample_env (default_args\<lparr>min_samples := Some 7\<rparr>)))) = [7]"
proof -
  have one: "\<exists>p m. clusterer_calls (events (main sample_env a)) = [(p, m)]" for a
    using sample_calls [of a] by (auto simp: map_eq_Cons_conv)
  have zero: "map (\<lambda>c. p_min_samples (fst c))
     (clusterer_calls (events (main sample_env (default_args\<lparr>min_samples := Some 0\<rparr>)))) = [4]"
  proof -
    from one obtain p m where
      c: "clusterer_calls (events (main sample_env (default_args\<lparr>min_samples := Some 0\<rparr>))) = [(p, m)]"
      by blast
    then have "(p, m) \<in> set (clusterer_calls
        (events (main sample_env (default_args\<lparr>min_samples := Some 0\<rparr>))))"
      by simp
    from effective_min_samples [OF this] have "p_min_samples p = 4"
      by (simp add: default_args_def)
    with c show ?thesis by simp
  qed
  have none: "map (\<lambda>c. p_min_samples (fst c))
     (clusterer_calls (events (main sample_env default_args))) = [4]"
  proof -
    from one obtain p m where
      c: "clusterer_calls (events (main sample_env default_args)) = [(p, m)]"
      by blast
    then have "(p, m) \<in> set (clusterer_calls (events (main sample_env default_args)))"
      by simp
    from effective_min_samples [OF this] have "p_min_samples p = 4"
      by (simp add: default_args_def)
    with c show ?thesis by simp
  qed
  have seven: "map (\<lambda>c. p_min_samples (fst c))
     (clusterer_calls (events (main sample_env (default_args\<lparr>min_samples := Some 7\<rparr>)))) = [7]"
  proof -
    from one obtain p m where
      c: "clusterer_calls (events (main sample_env (default_args\<lparr>min_samples := Some 7\<rparr>))) = [(p, m)]"
      by blast
    then have "(p, m) \<in> set (clusterer_calls
        (events (main sample_env (default_args\<lparr>min_samples := Some 7\<rparr>))))"
      by simp
    from effective_min_samples [OF this] have "p_min_samples p = 7"
      by (simp add: default_args_def)
    with c show ?thesis by simp
  qed
  from zero none seven show ?thesis by simp
qed

text \<open>
  C10, as amended. On the document with no ids and no embeddings the script never prints
  the record with empty labels and ids and both counts 0. Under the \<open>euclidean\<close> metric
  the norm over axis 1 of line 45 raises on the one-dimensional empty array: the run
  ends there with status 1, and the clustering routine is not called. Under any other
  metric the routine is called with the empty array; when it raises, the run ends with
  that exception, and when it returns the empty label array, \<open>labels.max()\<close> raises; in
  both cases nothing is written to standard output and the status is 1.
\<close>

theorem empty_input_faults:
  assumes imp: "import_error env = None"
    and inp: "stdin env = Some \<lparr>ids = [], embeddings = []\<rparr>"
  shows "(\<forall>r. ResultDoc r \<in> set (stdout_docs (events (main env a))) \<longrightarrow> labels r \<noteq> []) \<and>
         (metric a = ''euclidean'' \<longrightarrow>
            events (main env a) = [Traceback AxisError] \<and> exit_code (main env a) = 1) \<and>
         (metric a \<noteq> ''euclidean'' \<longrightarrow>
            clusterer_calls (events (main env a)) =
              [(\<lparr>p_min_cluster_size = min_cluster_size a,
                 p_min_samples = py_or (min_samples a) (min_cluster_size a),
                 p_metric = metric a, p_core_dist_n_jobs = core_dist_n_jobs a\<rparr>, Arr1 [])] \<and>
            (\<forall>e. fit_predict env
                    \<lparr>p_min_cluster_size = min_cluster_size a,
                     p_min_samples = py_or (min_samples a) (min_cluster_size a),
                     p_metric = metric a, p_core_dist_n_jobs = core_dist_n_jobs a\<rparr>
                    (Arr1 []) = Inl e \<longrightarrow>
                 last (events (main env a)) = Traceback e \<and>
                 stdout_docs (events (main env a)) = [] \<and> exit_code (main env a) = 1) \<and>
            (fit_predict env
                    \<lparr>p_min_cluster_size = min_cluster_size a,
                     p_min_samples = py_or (min_samples a) (min_cluster_size a),
                     p_metric = metric a, p_core_dist_n_jobs = core_dist_n_jobs a\<rparr>
                    (Arr1 []) = Inr [] \<longrightarrow>
                 labels_max [] = Inl ValueError \<and>
                 last (events (main env a)) = Traceback ValueError \<and>
                 stdout_docs (events (main env a)) = [] \<and> exit_code (main env a) = 1))"
proof -
  have na: "np_array (np_float32 env) [] = Inr (Arr1 [])"
    by (simp add: np_array_def)
  have mr: "make_result [] [] = Inl ValueError"
    by (simp add: make_result_def labels_max_Nil)
  have rec: "\<forall>r. ResultDoc r \<in> set (stdout_docs (events (main env a))) \<longrightarrow> labels r \<noteq> []"
  proof (intro allI impI)
    fix r
    assume "ResultDoc r \<in> set (stdout_docs (events (main env a)))"
    then show "labels r \<noteq> []"
    proof (rule main_result)
      fix data ls
      assume "make_result (ids data) ls = Inr r"
      from make_result_Inr [OF this] show ?thesis by simp
    qed
  qed
  show ?thesis
  proof (cases "metric a = ''euclidean''")
    case True
    with imp inp na rec show ?thesis
      by (simp add: main_def Let_def fault_def l2_normalize_Arr1)
  next
    case False
    with imp inp na mr rec show ?thesis
      by (auto simp: main_def Let_def fault_def labels_max_Nil summary_line_def
          split: sum.splits)
  qed
qed

theorem empty_input_faults_witness:
  "events (main empty_env default_args) = [Traceback AxisError] \<and>
   exit_code (main empty_env default_args) = 1 \<and>
   fit_predict empty_env
     \<lparr>p_min_cluster_size = 4, p_min_samples = 4, p_metric = ''manhattan'',
      p_core_dist_n_jobs = - 1\<rparr> (Arr1 []) = Inr [] \<and>
   clusterer_calls (events (main empty_env (default_args\<lparr>metric := ''manhattan''\<rparr>))) =
     [(\<lparr>p_min_cluster_size = 4, p_min_samples = 4, p_metric = ''manhattan'',
        p_core_dist_n_jobs = - 1\<rparr>, Arr1 [])] \<and>
   last (events (main empty_env (default_args\<lparr>metric := ''manhattan''\<rparr>))) =
     Traceback ValueError \<and>
   stdout_docs (events (main empty_env (default_args\<lparr>metric := ''manhattan''\<rparr>))) = [] \<and>
   exit_code (main empty_env (default_args\<lparr>metric := ''manhattan''\<rparr>)) = 1 \<and>
   last (events (main refusing_env (default_args\<lparr>metric := ''manhattan''\<rparr>))) =
     Traceback (LibraryError ''no samples'') \<and>
   stdout_docs (events (main refusing_env (default_args\<lparr>metric := ''manhattan''\<rparr>))) = [] \<and>
   exit_code (main refusing_env (default_args\<lparr>metric := ''manhattan''\<rparr>)) = 1"
proof -
  have imp: "import_error empty_env = None" "import_error refusing_env = None"
    and inp: "stdin empty_env = Some \<lparr>ids = [], embeddings = []\<rparr>"
      "stdin refusing_env = Some \<lparr>ids = [], embeddings = []\<rparr>"
    by (simp_all add: empty_env_def refusing_env_def sample_env_def)
  have fp: "fit_predict empty_env p (Arr1 []) = Inr []"
    "fit_predict refusing_env p (Arr1 []) = Inl (LibraryError ''no samples'')" for p
    by (simp_all add: empty_env_def refusing_env_def sample_env_def sample_clusterer_def
        n_rows_def)
  show ?thesis
    using empty_input_faults [OF imp(1) inp(1), of default_args]
      empty_input_faults [OF imp(1) inp(1), of "default_args\<lparr>metric := ''manhattan''\<rparr>"]
      empty_input_faults [OF imp(2) inp(2), of "default_args\<lparr>metric := ''manhattan''\<rparr>"]
      fp
    by (simp add: default_args_def py_or_def truthy_def)
qed

text \<open>
  C10 as stated fails under the default metric: the run on the empty document ends at
  line 45, the clustering routine is never called, and no maximum of the labels is
  computed.
\<close>

theorem empty_input_faults_before_clustering:
  "stdin empty_env = Some \<lparr>ids = [], embeddings = []\<rparr> \<and>
   metric default_args = ''euclidean'' \<and>
   events (main empty_env default_args) = [Traceback AxisError] \<and>
   clusterer_calls (events (main empty_env default_args)) = []"
  by (simp add: main_def empty_env_def sample_env_def default_args_def np_array_def
      l2_normalize_Arr1 fault_def Let_def)

end
